theory Spec2Isabelle
  imports Complex_Main
begin

section \<open>JavaScript values\<close>

text \<open>
  The widget computes with JavaScript numbers. A number is modelled by its mathematical
  value: an impedance or fluid level is a \<^typ>\<open>real\<close>, a frequency is an \<^typ>\<open>int\<close>;
  the rounding of IEEE doubles is outside the model. \<open>parseInt\<close> and \<open>parseFloat\<close>
  return either a number or \<open>NaN\<close>, so a parsed field is a \<open>number\<close>.
\<close>

datatype 'a number = NaN | Num 'a

text \<open>
  A value that is read from an array or shown by the page: a number, a string, or
  \<open>undefined\<close> (what an array read past the end gives).
\<close>

datatype jsval = Undefined | Number real | String string

datatype js_error = TypeError

text \<open>\<open>xs[i]\<close>: the element, or \<open>undefined\<close> when \<open>i\<close> is not an index of \<open>xs\<close>.\<close>

definition array_get :: "real list \<Rightarrow> int \<Rightarrow> jsval" where
  "array_get xs i = (if 0 \<le> i \<and> i < int (length xs) then Number (xs ! nat i) else Undefined)"

text \<open>
  \<open>Array.from({ length: n }, (_, i) => g(i))\<close>: the list \<open>g(0), ..., g(n - 1)\<close>. The
  length is read with \<open>ToLength\<close>, which turns \<open>NaN\<close> and every negative number into 0.
\<close>

definition ToLength :: "int number \<Rightarrow> nat" where
  "ToLength n = (case n of NaN \<Rightarrow> 0 | Num k \<Rightarrow> nat k)"

definition Array_from :: "int number \<Rightarrow> (nat \<Rightarrow> 'a) \<Rightarrow> 'a list" where
  "Array_from n g = map g [0..<ToLength n]"

text \<open>
  \<open>xs.indexOf(v)\<close>: the first index whose element is strictly equal to \<open>v\<close>, or \<open>-1\<close>.
  \<open>NaN\<close> is strictly equal to nothing.
\<close>

fun indexOf_from :: "nat \<Rightarrow> int list \<Rightarrow> int \<Rightarrow> int" where
  "indexOf_from k [] v = - 1"
| "indexOf_from k (x # xs) v = (if x = v then int k else indexOf_from (Suc k) xs v)"

definition indexOf :: "int list \<Rightarrow> int number \<Rightarrow> int" where
  "indexOf xs v = (case v of NaN \<Rightarrow> - 1 | Num k \<Rightarrow> indexOf_from 0 xs k)"

section \<open>The impedance formula\<close>

text \<open>
  The body of \<open>generateImpedanceData\<close> from the constant \<open>R0\<close> on is the same text in
  the three versions of the component; only the construction of \<open>frequencies\<close> differs.
\<close>

definition R0 :: real where
  "R0 = 1000"

definition C0 :: real where
  "C0 = 1 / 10 ^ 9"

definition fluidFactor :: "real \<Rightarrow> real" where
  "fluidFactor fluidLevel = 1 - fluidLevel * (6 / 10)"

definition resistance :: "real \<Rightarrow> real" where
  "resistance fluidLevel = R0 * fluidFactor fluidLevel"

definition capacitance :: "real \<Rightarrow> real" where
  "capacitance fluidLevel = C0 * (1 + fluidLevel * 3)"

definition omega :: "int \<Rightarrow> real" where
  "omega f = 2 * pi * real_of_int f * 1000"

definition denom :: "real \<Rightarrow> int \<Rightarrow> real" where
  "denom fluidLevel f = 1 + (omega f * resistance fluidLevel * capacitance fluidLevel) ^ 2"

text \<open>
  The callback of \<open>frequencies.map\<close>. \<open>Math.sqrt\<close> is the real square root on
  non-negative arguments, and \<open>denom\<close> is never below 1 (lemma \<open>denom_ge_1\<close>).
\<close>

definition Z :: "real \<Rightarrow> int \<Rightarrow> real" where
  "Z fluidLevel f = resistance fluidLevel / sqrt (denom fluidLevel f)"

record series =
  frequencies :: "int list"
  impedanceData :: "real list"

text \<open>The original version: \<open>generateImpedanceData(fluidLevel)\<close>, 1 to 100 kHz.\<close>

definition generateImpedanceData1 :: "real \<Rightarrow> series" where
  "generateImpedanceData1 fluidLevel =
     (let frequencies = Array_from (Num 100) (\<lambda>i. int i + 1);
          impedanceData = map (Z fluidLevel) frequencies
      in \<lparr>frequencies = frequencies, impedanceData = impedanceData\<rparr>)"

text \<open>
  The later versions: \<open>generateImpedanceData(fluidLevel, minFreq, maxFreq)\<close>. The bounds
  come from \<open>parseInt\<close>. When one of them is \<open>NaN\<close> the length \<open>maxFreq - minFreq + 1\<close>
  is \<open>NaN\<close> and the callback \<open>i + minFreq\<close> is never called.
\<close>

fun generateImpedanceData :: "real \<Rightarrow> int number \<Rightarrow> int number \<Rightarrow> series" where
  "generateImpedanceData fluidLevel (Num minFreq) (Num maxFreq) =
     (let frequencies = Array_from (Num (maxFreq - minFreq + 1)) (\<lambda>i. int i + minFreq);
          impedanceData = map (Z fluidLevel) frequencies
      in \<lparr>frequencies = frequencies, impedanceData = impedanceData\<rparr>)"
| "generateImpedanceData fluidLevel _ _ =
     (let frequencies = Array_from NaN (\<lambda>i. int i);
          impedanceData = map (Z fluidLevel) frequencies
      in \<lparr>frequencies = frequencies, impedanceData = impedanceData\<rparr>)"

declare generateImpedanceData.simps [simp del]

section \<open>The frequency-selection version\<close>

text \<open>
  The component state is \<open>fluidLevel\<close>, \<open>minFreq\<close>, \<open>maxFreq\<close> and \<open>selectedFreq\<close>; the
  last three are set from \<open>parseInt(e.target.value)\<close>. On every render:
  \<^verbatim>\<open>const selectedIndex = frequencies.indexOf(selectedFreq);\<close>
  \<^verbatim>\<open>const selectedImpedance = selectedIndex !== -1 ? impedanceData[selectedIndex] : "N/A";\<close>
\<close>

definition selectedImpedance :: "real \<Rightarrow> int number \<Rightarrow> int number \<Rightarrow> int number \<Rightarrow> jsval" where
  "selectedImpedance fluidLevel minFreq maxFreq selectedFreq =
     (let r = generateImpedanceData fluidLevel minFreq maxFreq;
          selectedIndex = indexOf (frequencies r) selectedFreq
      in if selectedIndex \<noteq> - 1 then array_get (impedanceData r) selectedIndex
         else String ''N/A'')"

text \<open>
  The render expression \<open>selectedImpedance.toFixed(2)\<close>. Only a number has the method
  \<open>toFixed\<close>; calling it on a string or on \<open>undefined\<close> throws a \<open>TypeError\<close>. The
  digits that \<open>toFixed\<close> prints for a number are the parameter \<open>toFixed2\<close>.
\<close>

definition call_toFixed :: "(real \<Rightarrow> string) \<Rightarrow> jsval \<Rightarrow> js_error + string" where
  "call_toFixed toFixed2 v = (case v of Number z \<Rightarrow> Inr (toFixed2 z) | _ \<Rightarrow> Inl TypeError)"

text \<open>
  The comparison \<open>minFreq <= selectedFreq && selectedFreq <= maxFreq\<close> on JavaScript
  numbers: false as soon as one side is \<open>NaN\<close>.
\<close>

fun in_range :: "int number \<Rightarrow> int number \<Rightarrow> int number \<Rightarrow> bool" where
  "in_range (Num lo) (Num f) (Num hi) = (lo \<le> f \<and> f \<le> hi)"
| "in_range _ _ _ = False"

text \<open>The derived index of the same version.\<close>

definition fluidPercentage :: "real \<Rightarrow> real" where
  "fluidPercentage fluidLevel = fluidLevel * 100"

definition lDexIndex :: "real \<Rightarrow> real" where
  "lDexIndex fluidLevel = fluidPercentage fluidLevel / 10"

section \<open>The dual-limb version\<close>

definition lDexLeft :: "real \<Rightarrow> real" where
  "lDexLeft leftFluid = (leftFluid * 100) / 10"

definition lDexRight :: "real \<Rightarrow> real" where
  "lDexRight rightFluid = (rightFluid * 100) / 10"

text \<open>
  A template literal \<open>`${v}`\<close> prints a number with \<open>Number.prototype.toString\<close> (the
  parameter \<open>str\<close>) and \<open>undefined\<close> as the word itself.
\<close>

definition template :: "(real \<Rightarrow> string) \<Rightarrow> jsval \<Rightarrow> string" where
  "template str v = (case v of Number z \<Rightarrow> str z | String s \<Rightarrow> s | Undefined \<Rightarrow> ''undefined'')"

text \<open>
  One call of the \<open>forEach\<close> callback \<open>(f, i) => rows.push(...)\<close>: the row it pushes.
\<close>

definition csv_row :: "(real \<Rightarrow> string) \<Rightarrow> series \<Rightarrow> series \<Rightarrow> nat \<times> int \<Rightarrow> string" where
  "csv_row str left right p =
     (case p of (i, f) \<Rightarrow>
        template str (Number (real_of_int f)) @ '','' @
        template str (array_get (impedanceData left) (int i)) @ '','' @
        template str (array_get (impedanceData right) (int i)))"

definition csv_rows :: "(real \<Rightarrow> string) \<Rightarrow> real \<Rightarrow> real \<Rightarrow> int number \<Rightarrow> int number \<Rightarrow> string list" where
  "csv_rows str leftFluid rightFluid minFreq maxFreq =
     (let left = generateImpedanceData leftFluid minFreq maxFreq;
          right = generateImpedanceData rightFluid minFreq maxFreq
      in ''Frequency,Left Impedance,Right Impedance''
           # map (csv_row str left right) (enumerate 0 (frequencies left)))"

text \<open>\<open>rows.join(sep)\<close>.\<close>

fun join :: "string \<Rightarrow> string list \<Rightarrow> string" where
  "join sep [] = []"
| "join sep [r] = r"
| "join sep (r # r' # rs) = r @ sep @ join sep (r' # rs)"

text \<open>
  \<open>exportToCSV\<close> hands \<open>saveAs\<close> a blob and a file name: the result is the blob's text, its
  type and the name.
\<close>

definition exportToCSV ::
    "(real \<Rightarrow> string) \<Rightarrow> real \<Rightarrow> real \<Rightarrow> int number \<Rightarrow> int number \<Rightarrow> string \<times> string \<times> string" where
  "exportToCSV str leftFluid rightFluid minFreq maxFreq =
     (join [CHR 0x0A] (csv_rows str leftFluid rightFluid minFreq maxFreq),
      ''text/csv'', ''impedance_data.csv'')"

section \<open>The manual L-Dex calculator of the original version\<close>

text \<open>
  The two pieces of component state that \<open>calculateManualLDex\<close> writes: \<open>manualLDex\<close>
  (\<open>null\<close> at first, then the string \<open>lDexVal.toFixed(2)\<close>) and \<open>manualMessage\<close>.
\<close>

record manual =
  manualLDex :: "string option"
  manualMessage :: string

definition initial_manual :: manual where
  "initial_manual = \<lparr>manualLDex = None, manualMessage = []\<rparr>"

text \<open>
  \<open>Math.log10(q) * 10\<close> for a quotient \<open>q\<close> that is not zero: \<open>NaN\<close> when \<open>q\<close> is
  negative.
\<close>

definition log10_times_10 :: "real \<Rightarrow> real number" where
  "log10_times_10 q = (if 0 < q then Num (log 10 q * 10) else NaN)"

text \<open>
  The \<open>if\<close> chain that chooses the message. A comparison with \<open>NaN\<close> is false, so
  \<open>NaN\<close> falls through to the last branch.
\<close>

definition severity :: "real number \<Rightarrow> string" where
  "severity lDexVal =
     (case lDexVal of
        NaN \<Rightarrow> ''Significant fluid buildup. Please consult a specialist.''
      | Num l \<Rightarrow>
          if \<bar>l\<bar> < 3 then ''Normal fluid levels.''
          else if \<bar>l\<bar> < 10 then ''Mild to moderate fluid buildup.''
          else ''Significant fluid buildup. Please consult a specialist.'')"

definition reject :: "manual \<Rightarrow> manual" where
  "reject s = s\<lparr>manualMessage := ''Please fill all voltage and current values.''\<rparr>"

text \<open>
  The arguments are the four results of \<open>parseFloat\<close>. The guard
  \<open>!vA || !iA || !vU || !iU\<close> holds when one of them is \<open>NaN\<close> or zero; past it all
  four are non-zero numbers, so neither division is by zero and the quotient
  \<open>zA / zU\<close> is not zero. \<open>toFixed2\<close> is what \<open>toFixed(2)\<close> prints.
\<close>

fun calculateManualLDex ::
    "(real number \<Rightarrow> string) \<Rightarrow> real number \<Rightarrow> real number \<Rightarrow> real number \<Rightarrow> real number
      \<Rightarrow> manual \<Rightarrow> manual" where
  "calculateManualLDex toFixed2 (Num vA) (Num iA) (Num vU) (Num iU) s =
     (if vA = 0 \<or> iA = 0 \<or> vU = 0 \<or> iU = 0 then reject s
      else
        let zA = vA / iA;
            zU = vU / iU;
            lDexVal = log10_times_10 (zA / zU)
        in s\<lparr>manualLDex := Some (toFixed2 lDexVal), manualMessage := severity lDexVal\<rparr>)"
| "calculateManualLDex toFixed2 _ _ _ _ s = reject s"

text \<open>What the guard lets through: a number that is not zero.\<close>

definition accepted :: "real number \<Rightarrow> bool" where
  "accepted v = (case v of NaN \<Rightarrow> False | Num r \<Rightarrow> r \<noteq> 0)"

section \<open>Properties of the formula\<close>

subsection \<open>Frequencies and bounds\<close>

lemma map_shift_upto: "map (\<lambda>i. int i + lo) [0..<nat (hi - lo + 1)] = [lo..hi]"
proof (induction "nat (hi - lo + 1)" arbitrary: hi)
  case 0
  then have "hi < lo" by linarith
  then show ?case using 0 by simp
next
  case (Suc n)
  then have le: "lo \<le> hi" and n: "n = nat ((hi - 1) - lo + 1)" by linarith+
  have "map (\<lambda>i. int i + lo) [0..<nat (hi - lo + 1)] = map (\<lambda>i. int i + lo) [0..<n] @ [int n + lo]"
    using Suc(2)[symmetric] by simp
  also have "map (\<lambda>i. int i + lo) [0..<n] = [lo..hi - 1]"
    using Suc(1)[OF n] n by simp
  also have "int n + lo = hi" using n le by linarith
  finally show ?case using le by (simp add: upto_rec2)
qed

lemma denom_ge_1: "1 \<le> denom x f"
  by (simp add: denom_def)

lemma sqrt_denom_ge_1: "1 \<le> sqrt (denom x f)"
  using denom_ge_1 [of x f] by simp

lemma resistance_bounds: "0 \<le> x \<Longrightarrow> x \<le> 1 \<Longrightarrow> 400 \<le> resistance x \<and> resistance x \<le> 1000"
  by (simp add: resistance_def R0_def fluidFactor_def)

lemma capacitance_pos: "0 \<le> x \<Longrightarrow> 0 < capacitance x"
  by (simp add: capacitance_def C0_def add_pos_nonneg)

lemma Z_pos: "0 < resistance x \<Longrightarrow> 0 < Z x f"
  using sqrt_denom_ge_1 [of x f] by (simp add: Z_def)

lemma sqrt_denom_pos: "0 < sqrt (denom x f)"
  using sqrt_denom_ge_1 [of x f] by linarith

lemma Z_le_R:
  assumes "0 \<le> resistance x"
  shows "Z x f \<le> resistance x"
proof -
  have "resistance x * 1 \<le> resistance x * sqrt (denom x f)"
    by (rule mult_left_mono [OF sqrt_denom_ge_1 assms])
  then show ?thesis
    unfolding Z_def using sqrt_denom_pos [of x f] by (simp add: pos_divide_le_eq)
qed

lemma Z_antimono_freq:
  assumes "0 \<le> resistance x" "0 \<le> capacitance x" "0 \<le> f1" "f1 \<le> f2"
  shows "Z x f2 \<le> Z x f1"
proof -
  have o: "0 \<le> omega f1" "omega f1 \<le> omega f2"
    using assms by (simp_all add: omega_def)
  have "0 \<le> omega f1 * resistance x * capacitance x"
    using o assms by simp
  moreover have "omega f1 * resistance x * capacitance x \<le> omega f2 * resistance x * capacitance x"
    using o assms by (simp add: mult_right_mono)
  ultimately have "denom x f1 \<le> denom x f2"
    unfolding denom_def by (simp add: power_mono)
  then have "sqrt (denom x f1) \<le> sqrt (denom x f2)" by simp
  moreover have "0 < sqrt (denom x f1)" using sqrt_denom_ge_1 [of x f1] by linarith
  ultimately show ?thesis
    unfolding Z_def using assms(1) by (simp add: frac_le)
qed


lemma Z_decreasing_fluid:
  assumes x1: "0 \<le> x1" and lt: "x1 < x2" and x2: "x2 \<le> 1" and f: "0 \<le> f"
  shows "Z x2 f < Z x1 f"
proof -
  define R1 where "R1 = resistance x1"
  define R2 where "R2 = resistance x2"
  define C1 where "C1 = capacitance x1"
  define C2 where "C2 = capacitance x2"
  define w where "w = omega f"
  have R: "0 < R2" "R2 < R1"
    using assms by (simp_all add: R1_def R2_def resistance_def R0_def fluidFactor_def)
  have C: "0 < C1" "C1 < C2"
    using assms by (simp_all add: C1_def C2_def capacitance_def C0_def add_pos_nonneg)
  have w: "0 \<le> w" using f by (simp add: w_def omega_def)
  have d1: "denom x1 f = 1 + (w * R1 * C1)\<^sup>2" and d2: "denom x2 f = 1 + (w * R2 * C2)\<^sup>2"
    by (simp_all add: denom_def w_def R1_def R2_def C1_def C2_def)
  have RR: "R2\<^sup>2 < R1\<^sup>2" using R by (simp add: power_strict_mono)
  have CC: "C1\<^sup>2 \<le> C2\<^sup>2" using C by (simp add: power_mono)
  have "(w * R1 * R2)\<^sup>2 * C1\<^sup>2 \<le> (w * R1 * R2)\<^sup>2 * C2\<^sup>2"
    using CC by (simp add: mult_left_mono)
  then have "R2\<^sup>2 + (w * R1 * R2)\<^sup>2 * C1\<^sup>2 < R1\<^sup>2 + (w * R1 * R2)\<^sup>2 * C2\<^sup>2"
    using RR by linarith
  then have sq: "R2\<^sup>2 * denom x1 f < R1\<^sup>2 * denom x2 f"
    unfolding d1 d2 by (simp add: algebra_simps power_mult_distrib)
  have "(R2 * sqrt (denom x1 f))\<^sup>2 < (R1 * sqrt (denom x2 f))\<^sup>2"
    using sq denom_ge_1 [of x1 f] denom_ge_1 [of x2 f] by (simp add: power_mult_distrib)
  moreover have "0 \<le> R1 * sqrt (denom x2 f)"
    using R sqrt_denom_pos [of x2 f] by simp
  ultimately have "R2 * sqrt (denom x1 f) < R1 * sqrt (denom x2 f)"
    by (rule power2_less_imp_less)
  then show ?thesis
    unfolding Z_def R1_def [symmetric] R2_def [symmetric]
    using sqrt_denom_pos [of x1 f] sqrt_denom_pos [of x2 f]
    by (simp add: divide_less_eq pos_less_divide_eq mult.commute)
qed


subsection \<open>The two arrays\<close>

lemma Array_from_shift: "Array_from (Num (hi - lo + 1)) (\<lambda>i. int i + lo) = [lo..hi]"
  by (simp add: Array_from_def ToLength_def map_shift_upto)

lemma frequencies_generate:
  "frequencies (generateImpedanceData x (Num lo) (Num hi)) = [lo..hi]"
  by (simp add: generateImpedanceData.simps Array_from_shift Let_def)

lemma impedanceData_generate:
  "impedanceData (generateImpedanceData x (Num lo) (Num hi)) = map (Z x) [lo..hi]"
  by (simp add: generateImpedanceData.simps Array_from_shift Let_def)

lemma generate_NaN:
  "mn = NaN \<or> mx = NaN \<Longrightarrow> generateImpedanceData x mn mx = \<lparr>frequencies = [], impedanceData = []\<rparr>"
  by (cases mn; cases mx) (simp_all add: generateImpedanceData.simps Array_from_def ToLength_def)

lemma impedanceData_map:
  "impedanceData (generateImpedanceData x mn mx)
    = map (Z x) (frequencies (generateImpedanceData x mn mx))"
  by (cases mn; cases mx) (simp_all add: generate_NaN frequencies_generate impedanceData_generate)

lemma frequencies_generate1: "frequencies (generateImpedanceData1 x) = [1..100]"
  using Array_from_shift [of 100 1] by (simp add: generateImpedanceData1_def Let_def)

lemma impedanceData_generate1: "impedanceData (generateImpedanceData1 x) = map (Z x) [1..100]"
  using Array_from_shift [of 100 1] by (simp add: generateImpedanceData1_def Let_def)


lemma Z_formula:
  "Z x f = 1000 * (1 - 0.6 * x) /
     sqrt (1 + (2 * pi * real_of_int f * 1000 * (1000 * (1 - 0.6 * x)) * (1 / 10 ^ 9 * (1 + 3 * x)))\<^sup>2)"
  by (simp add: Z_def denom_def omega_def resistance_def capacitance_def R0_def C0_def
      fluidFactor_def mult.commute)

lemma length_le_100_iff:
  "length (frequencies (generateImpedanceData x (Num minFreq) (Num maxFreq))) \<le> 100
    \<longleftrightarrow> maxFreq - minFreq < 100"
  by (auto simp: frequencies_generate)

lemma nth_impedanceData:
  assumes "lo \<le> f" "f \<le> hi"
  shows "impedanceData (generateImpedanceData x (Num lo) (Num hi)) ! nat (f - lo) = Z x f"
proof -
  have "nat (f - lo) < length [lo..hi]" using assms by simp
  moreover have "[lo..hi] ! nat (f - lo) = f" using assms by (simp add: nth_upto)
  ultimately show ?thesis by (simp add: impedanceData_generate del: length_upto)
qed

lemma resistance_decreasing: "x1 < x2 \<Longrightarrow> resistance x2 < resistance x1"
  by (simp add: resistance_def R0_def fluidFactor_def)

lemma capacitance_increasing: "x1 < x2 \<Longrightarrow> capacitance x1 < capacitance x2"
  by (simp add: capacitance_def C0_def)

lemma set_impedanceData: "z \<in> set (impedanceData (generateImpedanceData x mn mx)) \<Longrightarrow> \<exists>f. z = Z x f"
  by (auto simp: impedanceData_map)

subsection \<open>The selected frequency\<close>

lemma indexOf_from_upto:
  "indexOf_from k [lo..hi] f = (if lo \<le> f \<and> f \<le> hi then int k + (f - lo) else - 1)"
proof (induction "nat (hi - lo + 1)" arbitrary: lo k)
  case 0
  then have "hi < lo" by linarith
  then show ?case by simp
next
  case (Suc n)
  then have le: "lo \<le> hi" and n: "n = nat (hi - (lo + 1) + 1)" by linarith+
  have "indexOf_from k [lo..hi] f = (if lo = f then int k else indexOf_from (Suc k) [lo + 1..hi] f)"
    using le by (simp add: upto_rec1)
  also have "indexOf_from (Suc k) [lo + 1..hi] f
      = (if lo + 1 \<le> f \<and> f \<le> hi then int (Suc k) + (f - (lo + 1)) else - 1)"
    by (rule Suc(1) [OF n])
  finally show ?case using le by auto
qed

lemma frequencies_NaN: "\<not> in_range mn s mx \<Longrightarrow> indexOf (frequencies (generateImpedanceData x mn mx)) s = - 1"
  by (cases mn; cases mx; cases s)
    (simp_all add: indexOf_def generate_NaN frequencies_generate indexOf_from_upto)

lemma selectedImpedance_in:
  assumes "lo \<le> f" "f \<le> hi"
  shows "selectedImpedance x (Num lo) (Num hi) (Num f) = Number (Z x f)"
proof -
  have i: "indexOf [lo..hi] (Num f) = f - lo"
    using assms by (simp add: indexOf_def indexOf_from_upto)
  have "[lo..hi] ! nat (f - lo) = f" using assms by (simp add: nth_upto)
  then have "array_get (map (Z x) [lo..hi]) (f - lo) = Number (Z x f)"
    using assms by (simp add: array_get_def)
  then show ?thesis
    using assms i
    by (simp add: selectedImpedance_def frequencies_generate impedanceData_generate Let_def)
qed

lemma selectedImpedance_out:
  "\<not> in_range mn s mx \<Longrightarrow> selectedImpedance x mn mx s = String ''N/A''"
  by (simp add: selectedImpedance_def frequencies_NaN Let_def)

subsection \<open>The manual calculator\<close>

lemma reject_unaccepted:
  "\<not> (accepted vA \<and> accepted iA \<and> accepted vU \<and> accepted iU)
    \<Longrightarrow> calculateManualLDex fmt vA iA vU iU s = reject s"
  by (cases vA; cases iA; cases vU; cases iU) (auto simp: accepted_def)

lemma calculate_accepted:
  assumes "a \<noteq> 0" "b \<noteq> 0" "c \<noteq> 0" "d \<noteq> 0"
  shows "calculateManualLDex fmt (Num a) (Num b) (Num c) (Num d) s
     = s\<lparr>manualLDex := Some (fmt (log10_times_10 ((a / b) / (c / d)))),
         manualMessage := severity (log10_times_10 ((a / b) / (c / d)))\<rparr>"
  using assms by (simp add: Let_def)

lemma log10_2_bounds: "3 \<le> log 10 2 * 10 \<and> log 10 2 * 10 < 10"
proof -
  have a: "log 10 1024 = 10 * log 10 2"
    using log_nat_power [of 2 10 10] by simp
  have b: "log 10 1000 = 3"
    using log_nat_power [of 10 10 3] by simp
  have "log 10 1000 \<le> log 10 1024"
    by (subst log_le_cancel_iff) simp_all
  moreover have "log 10 2 < log 10 10"
    by (subst log_less_cancel_iff) simp_all
  ultimately show ?thesis using a b by simp
qed

subsection \<open>The rows of the export\<close>

lemma frequencies_same:
  "frequencies (generateImpedanceData x mn mx) = frequencies (generateImpedanceData y mn mx)"
  by (cases mn; cases mx) (simp_all add: generate_NaN frequencies_generate)

lemma length_impedanceData:
  "length (impedanceData (generateImpedanceData x mn mx)) = length (frequencies (generateImpedanceData y mn mx))"
  using frequencies_same [of x mn mx y] by (simp add: impedanceData_map)

lemma array_get_map:
  "i < length fs \<Longrightarrow> array_get (map h fs) (int i) = Number (h (fs ! i))"
  by (simp add: array_get_def)

lemma map_csv_row:
  assumes l: "impedanceData left = map hl fs" and r: "impedanceData right = map hr fs"
  shows "map (csv_row str left right) (enumerate 0 fs)
    = map (\<lambda>f. str (real_of_int f) @ '','' @ str (hl f) @ '','' @ str (hr f)) fs"
proof (rule nth_equalityI)
  show "length (map (csv_row str left right) (enumerate 0 fs))
      = length (map (\<lambda>f. str (real_of_int f) @ '','' @ str (hl f) @ '','' @ str (hr f)) fs)"
    by simp
next
  fix i
  assume "i < length (map (csv_row str left right) (enumerate 0 fs))"
  then have i: "i < length fs" by simp
  then have "enumerate 0 fs ! i = (i, fs ! i)" by (simp add: nth_enumerate_eq)
  then show "map (csv_row str left right) (enumerate 0 fs) ! i
      = map (\<lambda>f. str (real_of_int f) @ '','' @ str (hl f) @ '','' @ str (hr f)) fs ! i"
    using i by (simp add: csv_row_def l r array_get_map template_def)
qed

lemma csv_rows_eq:
  "csv_rows str lf rf mn mx =
     ''Frequency,Left Impedance,Right Impedance''
     # map (\<lambda>f. str (real_of_int f) @ '','' @ str (Z lf f) @ '','' @ str (Z rf f))
         (frequencies (generateImpedanceData lf mn mx))"
proof -
  have l: "impedanceData (generateImpedanceData lf mn mx)
      = map (Z lf) (frequencies (generateImpedanceData lf mn mx))"
    by (rule impedanceData_map)
  have r: "impedanceData (generateImpedanceData rf mn mx)
      = map (Z rf) (frequencies (generateImpedanceData lf mn mx))"
    using impedanceData_map [of rf mn mx] frequencies_same [of rf mn mx lf] by simp
  show ?thesis
    unfolding csv_rows_def Let_def by (simp only: map_csv_row [OF l r])
qed

section \<open>The claims\<close>

text \<open>
  C1. \<open>generateImpedanceData(x, minFreq, maxFreq)\<close> returns the consecutive integers
  \<open>minFreq, ..., maxFreq\<close> as \<open>frequencies\<close>, and at every index \<open>i\<close> the value
  \<open>impedanceData[i]\<close> is \<open>R / sqrt(1 + (2 pi frequencies[i] 1000 R C)^2)\<close> with
  \<open>R = 1000 (1 - 0.6 x)\<close> and \<open>C = 1e-9 (1 + 3 x)\<close>. The original version does the same
  over the fixed range 1..100. The statement needs neither \<open>0 \<le> x \<le> 1\<close> nor
  \<open>minFreq \<le> maxFreq\<close>: for \<open>minFreq > maxFreq\<close> both arrays are empty.
\<close>

theorem generateImpedanceData_formula:
  "frequencies (generateImpedanceData x (Num minFreq) (Num maxFreq)) = [minFreq..maxFreq]
   \<and> length (impedanceData (generateImpedanceData x (Num minFreq) (Num maxFreq)))
       = length (frequencies (generateImpedanceData x (Num minFreq) (Num maxFreq)))
   \<and> (\<forall>i < length (frequencies (generateImpedanceData x (Num minFreq) (Num maxFreq))).
        impedanceData (generateImpedanceData x (Num minFreq) (Num maxFreq)) ! i
          = 1000 * (1 - 0.6 * x) /
            sqrt (1 + (2 * pi *
                  real_of_int (frequencies (generateImpedanceData x (Num minFreq) (Num maxFreq)) ! i)
                  * 1000 * (1000 * (1 - 0.6 * x)) * (1 / 10 ^ 9 * (1 + 3 * x)))\<^sup>2))
   \<and> frequencies (generateImpedanceData1 x) = [1..100]
   \<and> length (impedanceData (generateImpedanceData1 x)) = length (frequencies (generateImpedanceData1 x))
   \<and> (\<forall>i < length (frequencies (generateImpedanceData1 x)).
        impedanceData (generateImpedanceData1 x) ! i
          = 1000 * (1 - 0.6 * x) /
            sqrt (1 + (2 * pi * real_of_int (frequencies (generateImpedanceData1 x) ! i)
                  * 1000 * (1000 * (1 - 0.6 * x)) * (1 / 10 ^ 9 * (1 + 3 * x)))\<^sup>2))"
  by (simp add: Z_formula frequencies_generate impedanceData_generate
      frequencies_generate1 impedanceData_generate1)

theorem generateImpedanceData_formula_witness:
  "frequencies (generateImpedanceData 0 (Num 1) (Num 2)) = [1, 2]
   \<and> impedanceData (generateImpedanceData 0 (Num 1) (Num 2)) ! 1
        = 1000 / sqrt (1 + (2 * pi * 2 * 1000 * 1000 * (1 / 10 ^ 9))\<^sup>2)
   \<and> impedanceData (generateImpedanceData1 0) ! 99
        = 1000 / sqrt (1 + (2 * pi * 100 * 1000 * 1000 * (1 / 10 ^ 9))\<^sup>2)"
proof -
  let ?G = "generateImpedanceData 0 (Num 1) (Num 2)"
  let ?H = "generateImpedanceData1 0"
  note t = generateImpedanceData_formula [of 0 1 2]
  have u: "[1..2] = [1, 2::int]" by (simp add: upto.simps)
  have f: "frequencies ?G = [1, 2]"
    using t [THEN conjunct1] u by simp
  have a: "impedanceData ?G ! 1 = 1000 / sqrt (1 + (2 * pi * 2 * 1000 * 1000 * (1 / 10 ^ 9))\<^sup>2)"
    using t [THEN conjunct2, THEN conjunct2, THEN conjunct1, rule_format, of 1] f by simp
  have g: "frequencies ?H = [1..100]"
    using t [THEN conjunct2, THEN conjunct2, THEN conjunct2, THEN conjunct1] .
  have b: "impedanceData ?H ! 99 = 1000 / sqrt (1 + (2 * pi * 100 * 1000 * 1000 * (1 / 10 ^ 9))\<^sup>2)"
    using t [THEN conjunct2, THEN conjunct2, THEN conjunct2, THEN conjunct2, THEN conjunct2,
        rule_format, of 99] g by simp
  show ?thesis using f a b by simp
qed

text \<open>
  C2. For a fixed fluid level \<open>x\<close> in \<open>[0, 1]\<close> and frequencies \<open>1 \<le> f1 \<le> f2\<close> (kHz), the
  impedance at \<open>f2\<close> is at most the impedance at \<open>f1\<close>: the curve does not increase with
  the frequency. Stated for the callback \<open>Z\<close> and for the entries of the returned array
  when both frequencies lie between the bounds.
\<close>

theorem impedance_nonincreasing_in_frequency:
  assumes "0 \<le> x" "x \<le> 1" "1 \<le> f1" "f1 \<le> f2"
  shows "Z x f2 \<le> Z x f1
    \<and> (minFreq \<le> f1 \<and> f2 \<le> maxFreq \<longrightarrow>
         impedanceData (generateImpedanceData x (Num minFreq) (Num maxFreq)) ! nat (f2 - minFreq)
         \<le> impedanceData (generateImpedanceData x (Num minFreq) (Num maxFreq)) ! nat (f1 - minFreq))"
proof -
  have R: "0 \<le> resistance x" using resistance_bounds [OF assms(1,2)] by linarith
  have C: "0 \<le> capacitance x" using capacitance_pos [OF assms(1)] by linarith
  have z: "Z x f2 \<le> Z x f1"
    by (rule Z_antimono_freq [OF R C]) (use assms in simp_all)
  show ?thesis using z assms by (simp add: nth_impedanceData)
qed

theorem impedance_nonincreasing_in_frequency_witness:
  "Z (1 / 5) 100 \<le> Z (1 / 5) 1
   \<and> impedanceData (generateImpedanceData (1 / 5) (Num 1) (Num 100)) ! 99
      \<le> impedanceData (generateImpedanceData (1 / 5) (Num 1) (Num 100)) ! 0"
  using impedance_nonincreasing_in_frequency [of "1 / 5" 1 100 1 100] by simp

text \<open>
  C3. For a fixed frequency \<open>f \<ge> 1\<close> kHz and fluid levels \<open>x1 < x2\<close> in \<open>[0, 1]\<close>, the
  impedance at \<open>x2\<close> is strictly below the impedance at \<open>x1\<close>; the resistance is
  smaller and the capacitance larger at \<open>x2\<close>.
\<close>

theorem impedance_decreasing_in_fluid:
  assumes "0 \<le> x1" "x1 < x2" "x2 \<le> 1" "1 \<le> f"
  shows "Z x2 f < Z x1 f
    \<and> resistance x2 < resistance x1
    \<and> capacitance x1 < capacitance x2
    \<and> (minFreq \<le> f \<and> f \<le> maxFreq \<longrightarrow>
         impedanceData (generateImpedanceData x2 (Num minFreq) (Num maxFreq)) ! nat (f - minFreq)
         < impedanceData (generateImpedanceData x1 (Num minFreq) (Num maxFreq)) ! nat (f - minFreq))"
proof -
  have z: "Z x2 f < Z x1 f"
    by (rule Z_decreasing_fluid) (use assms in simp_all)
  show ?thesis
    using z resistance_decreasing [OF assms(2)] capacitance_increasing [OF assms(2)]
    by (simp add: nth_impedanceData)
qed

theorem impedance_decreasing_in_fluid_witness:
  "Z (1 / 2) 50 < Z (1 / 5) 50
   \<and> resistance (1 / 2) < resistance (1 / 5)
   \<and> capacitance (1 / 5) < capacitance (1 / 2)
   \<and> impedanceData (generateImpedanceData (1 / 2) (Num 1) (Num 100)) ! 49
      < impedanceData (generateImpedanceData (1 / 5) (Num 1) (Num 100)) ! 49"
  using impedance_decreasing_in_fluid [of "1 / 5" "1 / 2" 50 1 100] by simp

text \<open>
  C4. The formula is to be evaluated over at most 100 points for every fluid level and
  every pair of bounds that the number inputs deliver. The inputs declare the range with
  \<open>min="1"\<close> and \<open>max="100"\<close>, and the original version is fixed at 100 points, but the
  \<open>onChange\<close> handlers store \<open>parseInt(e.target.value)\<close> unclamped and
  \<open>generateImpedanceData\<close> has no cap of its own. With 500 typed into the field for
  \<open>maxFreq\<close> both arrays have 500 entries; in general the arrays have at most 100 entries
  exactly when \<open>maxFreq - minFreq < 100\<close> (lemma \<open>length_le_100_iff\<close>).
\<close>

theorem points_exceed_100_at_typed_500:
  "length (frequencies (generateImpedanceData (1 / 5) (Num 1) (Num 500))) = 500
   \<and> length (impedanceData (generateImpedanceData (1 / 5) (Num 1) (Num 500))) = 500
   \<and> \<not> length (frequencies (generateImpedanceData (1 / 5) (Num 1) (Num 500))) \<le> 100
   \<and> length (frequencies (generateImpedanceData1 (1 / 5))) = 100"
  by (simp add: frequencies_generate impedanceData_generate frequencies_generate1)

text \<open>
  C5. When one of the four fields parses to \<open>NaN\<close>, \<open>calculateManualLDex\<close> sets the
  message \<open>Please fill all voltage and current values.\<close> and leaves \<open>manualLDex\<close> as it
  was; the guard rejects zero in the same way. When all four parse to values that the
  guard accepts (numbers other than zero), the quotient \<open>q = (vA / iA) / (vU / iU)\<close> is not
  zero, and the function stores in \<open>manualLDex\<close> what \<open>toFixed(2)\<close> prints for
  \<open>log10(q) * 10\<close>: for the number \<open>log 10 q * 10\<close> when \<open>q\<close> is positive, for \<open>NaN\<close> when
  \<open>q\<close> is negative. The message stored with it is \<open>Normal fluid levels.\<close> when the
  absolute value of the index is below 3, \<open>Mild to moderate fluid buildup.\<close> when it is
  below 10, and \<open>Significant fluid buildup. Please consult a specialist.\<close> otherwise,
  also for \<open>NaN\<close>.
\<close>

theorem calculateManualLDex_validation:
  "(vA = NaN \<or> iA = NaN \<or> vU = NaN \<or> iU = NaN \<longrightarrow>
      calculateManualLDex toFixed2 vA iA vU iU s
        = s\<lparr>manualMessage := ''Please fill all voltage and current values.''\<rparr>
      \<and> manualMessage (calculateManualLDex toFixed2 vA iA vU iU s)
        = ''Please fill all voltage and current values.''
      \<and> manualLDex (calculateManualLDex toFixed2 vA iA vU iU s) = manualLDex s)
   \<and> (\<not> (accepted vA \<and> accepted iA \<and> accepted vU \<and> accepted iU) \<longrightarrow>
      calculateManualLDex toFixed2 vA iA vU iU s
        = s\<lparr>manualMessage := ''Please fill all voltage and current values.''\<rparr>)
   \<and> (accepted (Num a) \<longleftrightarrow> a \<noteq> 0)
   \<and> (a \<noteq> 0 \<and> b \<noteq> 0 \<and> c \<noteq> 0 \<and> d \<noteq> 0 \<longrightarrow>
      (a / b) / (c / d) \<noteq> 0
      \<and> (0 < (a / b) / (c / d) \<longrightarrow>
           manualLDex (calculateManualLDex toFixed2 (Num a) (Num b) (Num c) (Num d) s)
             = Some (toFixed2 (Num (log 10 ((a / b) / (c / d)) * 10))))
      \<and> (0 < (a / b) / (c / d) \<and> \<bar>log 10 ((a / b) / (c / d)) * 10\<bar> < 3 \<longrightarrow>
           manualMessage (calculateManualLDex toFixed2 (Num a) (Num b) (Num c) (Num d) s)
             = ''Normal fluid levels.'')
      \<and> (0 < (a / b) / (c / d) \<and> 3 \<le> \<bar>log 10 ((a / b) / (c / d)) * 10\<bar>
            \<and> \<bar>log 10 ((a / b) / (c / d)) * 10\<bar> < 10 \<longrightarrow>
           manualMessage (calculateManualLDex toFixed2 (Num a) (Num b) (Num c) (Num d) s)
             = ''Mild to moderate fluid buildup.'')
      \<and> (0 < (a / b) / (c / d) \<and> 10 \<le> \<bar>log 10 ((a / b) / (c / d)) * 10\<bar> \<longrightarrow>
           manualMessage (calculateManualLDex toFixed2 (Num a) (Num b) (Num c) (Num d) s)
             = ''Significant fluid buildup. Please consult a specialist.'')
      \<and> ((a / b) / (c / d) < 0 \<longrightarrow>
           manualLDex (calculateManualLDex toFixed2 (Num a) (Num b) (Num c) (Num d) s)
             = Some (toFixed2 NaN)
           \<and> manualMessage (calculateManualLDex toFixed2 (Num a) (Num b) (Num c) (Num d) s)
             = ''Significant fluid buildup. Please consult a specialist.''))"
proof -
  have 1: "calculateManualLDex toFixed2 vA iA vU iU s
        = s\<lparr>manualMessage := ''Please fill all voltage and current values.''\<rparr>"
    if "\<not> (accepted vA \<and> accepted iA \<and> accepted vU \<and> accepted iU)"
    using reject_unaccepted [OF that] by (simp add: reject_def)
  have 2: "\<not> (accepted vA \<and> accepted iA \<and> accepted vU \<and> accepted iU)"
    if "vA = NaN \<or> iA = NaN \<or> vU = NaN \<or> iU = NaN"
    using that by (auto simp: accepted_def)
  have 4: "calculateManualLDex toFixed2 vA iA vU iU s
        = s\<lparr>manualMessage := ''Please fill all voltage and current values.''\<rparr>
      \<and> manualMessage (calculateManualLDex toFixed2 vA iA vU iU s)
        = ''Please fill all voltage and current values.''
      \<and> manualLDex (calculateManualLDex toFixed2 vA iA vU iU s) = manualLDex s"
    if "vA = NaN \<or> iA = NaN \<or> vU = NaN \<or> iU = NaN"
    using 1 [OF 2 [OF that]] by simp
  have 5: "accepted (Num a) \<longleftrightarrow> a \<noteq> 0"
    by (simp add: accepted_def)
  let ?q = "(a / b) / (c / d)"
  let ?s' = "calculateManualLDex toFixed2 (Num a) (Num b) (Num c) (Num d) s"
  have 3: "?q \<noteq> 0
      \<and> (0 < ?q \<longrightarrow> manualLDex ?s' = Some (toFixed2 (Num (log 10 ?q * 10))))
      \<and> (0 < ?q \<and> \<bar>log 10 ?q * 10\<bar> < 3 \<longrightarrow> manualMessage ?s' = ''Normal fluid levels.'')
      \<and> (0 < ?q \<and> 3 \<le> \<bar>log 10 ?q * 10\<bar> \<and> \<bar>log 10 ?q * 10\<bar> < 10 \<longrightarrow>
           manualMessage ?s' = ''Mild to moderate fluid buildup.'')
      \<and> (0 < ?q \<and> 10 \<le> \<bar>log 10 ?q * 10\<bar> \<longrightarrow>
           manualMessage ?s' = ''Significant fluid buildup. Please consult a specialist.'')
      \<and> (?q < 0 \<longrightarrow> manualLDex ?s' = Some (toFixed2 NaN)
           \<and> manualMessage ?s' = ''Significant fluid buildup. Please consult a specialist.'')"
    if nz: "a \<noteq> 0 \<and> b \<noteq> 0 \<and> c \<noteq> 0 \<and> d \<noteq> 0"
  proof -
    have q: "?q \<noteq> 0" using nz by simp
    have e: "?s' = s\<lparr>manualLDex := Some (toFixed2 (log10_times_10 ?q)),
         manualMessage := severity (log10_times_10 ?q)\<rparr>"
      using nz by (intro calculate_accepted) simp_all
    have pos: "log10_times_10 ?q = Num (log 10 ?q * 10)" if "0 < ?q"
      using that unfolding log10_times_10_def by (simp only: if_True)
    have neg: "log10_times_10 ?q = NaN" if "?q < 0"
    proof -
      have "\<not> 0 < ?q" using that by linarith
      then show ?thesis unfolding log10_times_10_def by (simp only: if_False)
    qed
    show ?thesis
      unfolding e using q pos neg
      by (auto simp: severity_def simp del: divide_divide_eq_left divide_divide_eq_right
          times_divide_times_eq)
  qed
  show ?thesis
    using 1 3 4 5 by blast
qed

theorem calculateManualLDex_validation_witness:
  "manualLDex (calculateManualLDex (\<lambda>v. case v of NaN \<Rightarrow> ''NaN'' | Num r \<Rightarrow> ''number'')
      NaN (Num 2) (Num 3) (Num 4) initial_manual) = None
   \<and> manualMessage (calculateManualLDex (\<lambda>v. case v of NaN \<Rightarrow> ''NaN'' | Num r \<Rightarrow> ''number'')
      NaN (Num 2) (Num 3) (Num 4) initial_manual)
       = ''Please fill all voltage and current values.''
   \<and> calculateManualLDex (\<lambda>v. case v of NaN \<Rightarrow> ''NaN'' | Num r \<Rightarrow> ''number'')
      (Num 0) (Num 1) (Num 1) (Num 1) initial_manual
       = initial_manual\<lparr>manualMessage := ''Please fill all voltage and current values.''\<rparr>
   \<and> manualLDex (calculateManualLDex (\<lambda>v. case v of NaN \<Rightarrow> ''NaN'' | Num r \<Rightarrow> ''number'')
      (Num 1) (Num 1) (Num 1) (Num 1) initial_manual) = Some ''number''
   \<and> manualMessage (calculateManualLDex (\<lambda>v. case v of NaN \<Rightarrow> ''NaN'' | Num r \<Rightarrow> ''number'')
      (Num 1) (Num 1) (Num 1) (Num 1) initial_manual) = ''Normal fluid levels.''
   \<and> manualMessage (calculateManualLDex (\<lambda>v. case v of NaN \<Rightarrow> ''NaN'' | Num r \<Rightarrow> ''number'')
      (Num 2) (Num 1) (Num 1) (Num 1) initial_manual) = ''Mild to moderate fluid buildup.''
   \<and> manualMessage (calculateManualLDex (\<lambda>v. case v of NaN \<Rightarrow> ''NaN'' | Num r \<Rightarrow> ''number'')
      (Num 10) (Num 1) (Num 1) (Num 1) initial_manual)
       = ''Significant fluid buildup. Please consult a specialist.''
   \<and> manualLDex (calculateManualLDex (\<lambda>v. case v of NaN \<Rightarrow> ''NaN'' | Num r \<Rightarrow> ''number'')
      (Num (- 1)) (Num 1) (Num 1) (Num 1) initial_manual) = Some ''NaN''
   \<and> manualMessage (calculateManualLDex (\<lambda>v. case v of NaN \<Rightarrow> ''NaN'' | Num r \<Rightarrow> ''number'')
      (Num (- 1)) (Num 1) (Num 1) (Num 1) initial_manual)
       = ''Significant fluid buildup. Please consult a specialist.''"
proof -
  let ?F = "\<lambda>v::real number. case v of NaN \<Rightarrow> ''NaN'' | Num r \<Rightarrow> ''number''"
  note t = calculateManualLDex_validation [of _ _ _ _ ?F initial_manual]
  have m: "3 \<le> \<bar>log 10 2 * 10\<bar> \<and> \<bar>log 10 2 * 10\<bar> < 10"
    using log10_2_bounds by simp
  have r1: "manualLDex (calculateManualLDex ?F NaN (Num 2) (Num 3) (Num 4) initial_manual) = None
      \<and> manualMessage (calculateManualLDex ?F NaN (Num 2) (Num 3) (Num 4) initial_manual)
       = ''Please fill all voltage and current values.''"
    using t [of NaN "Num 2" "Num 3" "Num 4"]
    by (simp add: initial_manual_def)
  have r2: "calculateManualLDex ?F (Num 0) (Num 1) (Num 1) (Num 1) initial_manual
       = initial_manual\<lparr>manualMessage := ''Please fill all voltage and current values.''\<rparr>"
    using t [of "Num 0" "Num 1" "Num 1" "Num 1"]
    by (simp add: accepted_def)
  have n: "manualLDex (calculateManualLDex ?F (Num 1) (Num 1) (Num 1) (Num 1) initial_manual)
       = Some ''number''
      \<and> manualMessage (calculateManualLDex ?F (Num 1) (Num 1) (Num 1) (Num 1) initial_manual)
       = ''Normal fluid levels.''"
    using t [of _ _ _ _ 1 1 1 1] by simp
  have mi: "manualMessage (calculateManualLDex ?F (Num 2) (Num 1) (Num 1) (Num 1) initial_manual)
       = ''Mild to moderate fluid buildup.''"
    using t [of _ _ _ _ 2 1 1 1] m by simp
  have si: "manualMessage (calculateManualLDex ?F (Num 10) (Num 1) (Num 1) (Num 1) initial_manual)
       = ''Significant fluid buildup. Please consult a specialist.''"
    using t [of _ _ _ _ 10 1 1 1] by simp
  have ng: "manualLDex (calculateManualLDex ?F (Num (- 1)) (Num 1) (Num 1) (Num 1) initial_manual)
       = Some ''NaN''
      \<and> manualMessage (calculateManualLDex ?F (Num (- 1)) (Num 1) (Num 1) (Num 1) initial_manual)
       = ''Significant fluid buildup. Please consult a specialist.''"
    using t [of _ _ _ _ "- 1" 1 1 1] by simp
  show ?thesis
    using r1 r2 n mi si ng by blast
qed

text \<open>
  C6. In the frequency-selection version, when \<open>minFreq \<le> selectedFreq \<le> maxFreq\<close> the
  lookup \<open>frequencies.indexOf(selectedFreq)\<close> succeeds and \<open>selectedImpedance\<close> is the
  impedance at \<open>selectedFreq\<close>; in every other state \<open>selectedImpedance\<close> is the string
  \<open>N/A\<close>, and the render expression \<open>selectedImpedance.toFixed(2)\<close> throws a \<open>TypeError\<close>.
\<close>

theorem selectedImpedance_lookup:
  "(minFreq \<le> f \<and> f \<le> maxFreq \<longrightarrow>
      indexOf (frequencies (generateImpedanceData x (Num minFreq) (Num maxFreq))) (Num f) = f - minFreq
      \<and> f - minFreq \<noteq> - 1
      \<and> selectedImpedance x (Num minFreq) (Num maxFreq) (Num f) = Number (Z x f)
      \<and> call_toFixed toFixed2 (selectedImpedance x (Num minFreq) (Num maxFreq) (Num f))
          = Inr (toFixed2 (Z x f)))
   \<and> (\<not> in_range mn s mx \<longrightarrow>
      selectedImpedance x mn mx s = String ''N/A''
      \<and> call_toFixed toFixed2 (selectedImpedance x mn mx s) = Inl TypeError)"
  by (simp add: selectedImpedance_in selectedImpedance_out call_toFixed_def
      frequencies_generate indexOf_def indexOf_from_upto)

theorem selectedImpedance_lookup_witness:
  "selectedImpedance (1 / 5) (Num 1) (Num 100) (Num 50) = Number (Z (1 / 5) 50)
   \<and> call_toFixed (\<lambda>z. ''digits'') (selectedImpedance (1 / 5) (Num 1) (Num 100) (Num 50))
        = Inr ''digits''
   \<and> selectedImpedance (1 / 5) (Num 60) (Num 100) (Num 50) = String ''N/A''
   \<and> call_toFixed (\<lambda>z. ''digits'') (selectedImpedance (1 / 5) (Num 60) (Num 100) (Num 50))
        = Inl TypeError"
proof -
  note t = selectedImpedance_lookup [of 1 50 100 "1 / 5" "\<lambda>z. ''digits''" "Num 60" "Num 50" "Num 100"]
  have inside: "(1::int) \<le> 50 \<and> (50::int) \<le> 100" by simp
  have outside: "\<not> in_range (Num 60) (Num 50) (Num 100)" by simp
  show ?thesis
    using t [THEN conjunct1, rule_format, OF inside] t [THEN conjunct2, rule_format, OF outside]
    by blast
qed

text \<open>
  C7. The index derived from the slider is the fluid percentage divided by 10, that is
  \<open>(x * 100) / 10 = 10 * x\<close>, for \<open>lDexIndex\<close> of the single-limb version and for
  \<open>lDexLeft\<close> and \<open>lDexRight\<close> of the dual-limb version.
\<close>

theorem lDex_is_ten_times_fluid:
  "lDexIndex x = fluidPercentage x / 10 \<and> fluidPercentage x = x * 100 \<and> lDexIndex x = 10 * x
   \<and> lDexLeft x = 10 * x \<and> lDexRight x = 10 * x"
  by (simp add: lDexIndex_def fluidPercentage_def lDexLeft_def lDexRight_def)

text \<open>
  C8. At fluid level 0 the resistance is \<open>R0\<close> (1000 ohms) and the capacitance is \<open>C0\<close>
  (\<open>1e-9\<close> farads), since both factors are 1.
\<close>

theorem fluid_zero_gives_R0_C0:
  "resistance 0 = R0 \<and> R0 = 1000 \<and> capacitance 0 = C0 \<and> C0 = 1 / 10 ^ 9
   \<and> fluidFactor 0 = 1"
  by (simp add: resistance_def capacitance_def fluidFactor_def R0_def C0_def)

text \<open>
  C9. For a fluid level \<open>x\<close> in \<open>[0, 1]\<close> and every frequency, the term \<open>denom\<close> is at least
  1, so the square root is positive and the division is defined, and the impedance \<open>Z\<close>
  satisfies \<open>0 < Z \<le> R = 1000 (1 - 0.6 x) \<le> 1000\<close>; so does every entry of
  \<open>impedanceData\<close>.
\<close>

theorem impedance_bounds:
  assumes "0 \<le> x" "x \<le> 1"
  shows "1 \<le> denom x f \<and> 0 < sqrt (denom x f)
    \<and> 0 < Z x f \<and> Z x f \<le> resistance x
    \<and> resistance x = 1000 * (1 - 0.6 * x) \<and> resistance x \<le> 1000
    \<and> (\<forall>z \<in> set (impedanceData (generateImpedanceData x minFreq maxFreq)).
          0 < z \<and> z \<le> resistance x)
    \<and> (\<forall>z \<in> set (impedanceData (generateImpedanceData1 x)). 0 < z \<and> z \<le> resistance x)"
proof -
  have R: "0 < resistance x" "resistance x \<le> 1000"
    using resistance_bounds [OF assms] by linarith+
  have Zb: "0 < Z x g \<and> Z x g \<le> resistance x" for g
    using Z_pos [OF R(1)] Z_le_R [of x g] R(1) by simp
  have eq: "resistance x = 1000 * (1 - 0.6 * x)"
    by (simp add: resistance_def R0_def fluidFactor_def)
  have a: "\<forall>z \<in> set (impedanceData (generateImpedanceData x minFreq maxFreq)). 0 < z \<and> z \<le> resistance x"
    using Zb by (auto dest!: set_impedanceData)
  have b: "\<forall>z \<in> set (impedanceData (generateImpedanceData1 x)). 0 < z \<and> z \<le> resistance x"
    using Zb by (auto simp: impedanceData_generate1)
  show ?thesis
    using denom_ge_1 [of x f] sqrt_denom_pos [of x f] Zb [of f] eq R(2) a b by blast
qed

theorem impedance_bounds_witness:
  "1 \<le> denom (1 / 5) 50 \<and> 0 < Z (1 / 5) 50 \<and> Z (1 / 5) 50 \<le> resistance (1 / 5)
   \<and> resistance (1 / 5) = 880 \<and> resistance (1 / 5) \<le> 1000"
  using impedance_bounds [of "1 / 5" 50 "Num 1" "Num 100"] by simp

text \<open>
  C10, as stated, counts \<open>maxFreq - minFreq + 1\<close> data rows in every state. With
  \<open>minFreq = 5\<close> and \<open>maxFreq = 2\<close> (a state that typing into the fields reaches) the
  export has no data row, not \<open>2 - 5 + 1\<close> of them.
\<close>

theorem exportToCSV_row_count_counterexample:
  "int (length (tl (csv_rows (\<lambda>z. ''n'') (1 / 5) (1 / 2) (Num 5) (Num 2)))) \<noteq> 2 - 5 + 1"
  by (simp add: csv_rows_eq frequencies_generate)

text \<open>
  C10, amended. In the dual-limb version \<open>exportToCSV\<close> writes the header row
  \<open>Frequency,Left Impedance,Right Impedance\<close> followed by one row per frequency: that is
  \<open>maxFreq - minFreq + 1\<close> data rows when that number is not negative and none otherwise.
  Row \<open>i\<close> holds the frequency and the left and right impedance at that frequency, and
  the read \<open>right.impedanceData[i]\<close> is always in bounds, because both series have the
  length of \<open>left.frequencies\<close>.
\<close>

theorem exportToCSV_rows:
  "csv_rows str leftFluid rightFluid mn mx =
     ''Frequency,Left Impedance,Right Impedance''
     # map (\<lambda>f. str (real_of_int f) @ '','' @ str (Z leftFluid f) @ '','' @ str (Z rightFluid f))
         (frequencies (generateImpedanceData leftFluid mn mx))
   \<and> length (csv_rows str leftFluid rightFluid mn mx)
       = 1 + length (frequencies (generateImpedanceData leftFluid mn mx))
   \<and> length (csv_rows str leftFluid rightFluid (Num minFreq) (Num maxFreq))
       = 1 + nat (maxFreq - minFreq + 1)
   \<and> length (impedanceData (generateImpedanceData rightFluid mn mx))
       = length (frequencies (generateImpedanceData leftFluid mn mx))
   \<and> (\<forall>i < length (frequencies (generateImpedanceData leftFluid mn mx)).
        array_get (impedanceData (generateImpedanceData leftFluid mn mx)) (int i)
          = Number (Z leftFluid (frequencies (generateImpedanceData leftFluid mn mx) ! i))
        \<and> array_get (impedanceData (generateImpedanceData rightFluid mn mx)) (int i)
          = Number (Z rightFluid (frequencies (generateImpedanceData leftFluid mn mx) ! i)))
   \<and> exportToCSV str leftFluid rightFluid mn mx
       = (join [CHR 0x0A] (csv_rows str leftFluid rightFluid mn mx), ''text/csv'', ''impedance_data.csv'')"
proof -
  let ?fs = "frequencies (generateImpedanceData leftFluid mn mx)"
  have r: "impedanceData (generateImpedanceData rightFluid mn mx) = map (Z rightFluid) ?fs"
    using impedanceData_map [of rightFluid mn mx] frequencies_same [of rightFluid mn mx leftFluid]
    by simp
  have l: "impedanceData (generateImpedanceData leftFluid mn mx) = map (Z leftFluid) ?fs"
    by (rule impedanceData_map)
  have n: "length (csv_rows str leftFluid rightFluid (Num minFreq) (Num maxFreq))
       = 1 + nat (maxFreq - minFreq + 1)"
    by (simp add: csv_rows_eq frequencies_generate)
  have b: "\<forall>i < length ?fs.
        array_get (impedanceData (generateImpedanceData leftFluid mn mx)) (int i)
          = Number (Z leftFluid (?fs ! i))
        \<and> array_get (impedanceData (generateImpedanceData rightFluid mn mx)) (int i)
          = Number (Z rightFluid (?fs ! i))"
    unfolding l r by (simp add: array_get_map)
  show ?thesis
    using n b by (simp add: csv_rows_eq length_impedanceData exportToCSV_def)
qed

theorem exportToCSV_rows_witness:
  "csv_rows (\<lambda>z. ''n'') (1 / 5) (1 / 2) (Num 1) (Num 2)
     = [''Frequency,Left Impedance,Right Impedance'', ''n,n,n'', ''n,n,n'']
   \<and> exportToCSV (\<lambda>z. ''n'') (1 / 5) (1 / 2) (Num 1) (Num 2)
     = (''Frequency,Left Impedance,Right Impedance'' @ [CHR 0x0A] @ ''n,n,n'' @ [CHR 0x0A] @ ''n,n,n'',
        ''text/csv'', ''impedance_data.csv'')
   \<and> array_get (impedanceData (generateImpedanceData (1 / 2) (Num 1) (Num 2))) 1
     = Number (Z (1 / 2) 2)"
proof -
  note t = exportToCSV_rows [of "\<lambda>z. ''n''" "1 / 5" "1 / 2" "Num 1" "Num 2" 1 2]
  have u: "[1..2] = [1, 2::int]" by (simp add: upto.simps)
  have f: "frequencies (generateImpedanceData (1 / 5) (Num 1) (Num 2)) = [1, 2]"
    using u by (simp add: frequencies_generate)
  have rows: "csv_rows (\<lambda>z. ''n'') (1 / 5) (1 / 2) (Num 1) (Num 2)
     = [''Frequency,Left Impedance,Right Impedance'', ''n,n,n'', ''n,n,n'']"
    using t [THEN conjunct1] f by simp
  have "(1::nat) < length (frequencies (generateImpedanceData (1 / 5) (Num 1) (Num 2)))"
    using f by simp
  then have g: "array_get (impedanceData (generateImpedanceData (1 / 2) (Num 1) (Num 2))) 1
     = Number (Z (1 / 2) 2)"
    using t [THEN conjunct2, THEN conjunct2, THEN conjunct2, THEN conjunct2, THEN conjunct1,
        rule_format, of 1] f by simp
  have e: "exportToCSV (\<lambda>z. ''n'') (1 / 5) (1 / 2) (Num 1) (Num 2)
     = (''Frequency,Left Impedance,Right Impedance'' @ [CHR 0x0A] @ ''n,n,n'' @ [CHR 0x0A] @ ''n,n,n'',
        ''text/csv'', ''impedance_data.csv'')"
    using t [THEN conjunct2, THEN conjunct2, THEN conjunct2, THEN conjunct2, THEN conjunct2] rows
    by simp
  show ?thesis using rows g e by blast
qed

end
